theory Spec2Isabelle
  imports Main
begin

section \<open>The workflow cell of main.ipynb\<close>

text \<open>
  The notebook's code cell creates the analysis tool, starts it, and finally releases its
  resources (main.ipynb, lines 49 to 78 of the file):
  \<^verbatim>\<open>
  try:
      tool = CMIP6AnalysisTool()
      print("\nStarting CMIP6 Analysis Tool...")
      ... six more print calls ...
      tool.start()
  except Exception as e:
      print(f"Error initializing tool: {str(e)}")
      print("\nPlease check:")
      print("- Earth Engine authentication")
      print("- Required dependencies")
      print("- Internet connection")

  if 'tool' in locals():
      try:
          tool.cleanup()
          print("<check mark> Resources cleaned up successfully")
      except Exception as e:
          print(f"Error during cleanup: {str(e)}")
  \<close>
  The imports and the Earth Engine initialisation of lines 33 to 46 run before these
  lines and are not modelled. Exceptions arise at the calls the cell makes: the
  constructor, \<^verbatim>\<open>start\<close>, \<^verbatim>\<open>cleanup\<close>, \<^verbatim>\<open>str\<close> and \<^verbatim>\<open>print\<close>.
\<close>

subsection \<open>Raised values\<close>

text \<open>
  What a Python call can raise is an instance of \<^verbatim>\<open>BaseException\<close>. The clause
  \<^verbatim>\<open>except Exception\<close> catches the instances of \<^verbatim>\<open>Exception\<close> and of its
  subclasses only; \<^verbatim>\<open>KeyboardInterrupt\<close> (the notebook's "interrupt kernel"),
  \<^verbatim>\<open>SystemExit\<close> and \<^verbatim>\<open>GeneratorExit\<close> derive from \<^verbatim>\<open>BaseException\<close>
  directly and pass through it.

  The handlers call \<^verbatim>\<open>str(e)\<close> on what they caught. That call runs the exception's own
  \<^verbatim>\<open>__str__\<close>, which returns a string or raises in its turn, so a caught exception
  carries the outcome of \<^verbatim>\<open>str\<close> on it. An exception that is not caught is never
  converted; it carries the name of its class.
\<close>

datatype py_exception =
    Exception str_outcome  \<comment> \<open>an instance of \<^verbatim>\<open>Exception\<close> or of a subclass\<close>
  | SystemExiting string   \<comment> \<open>a \<^verbatim>\<open>BaseException\<close> that is not an \<^verbatim>\<open>Exception\<close>\<close>
and str_outcome =
    Str string                \<comment> \<open>\<^verbatim>\<open>str(e)\<close> returns this string\<close>
  | Str_raises py_exception   \<comment> \<open>\<^verbatim>\<open>str(e)\<close> raises this exception\<close>

subsection \<open>What the cell calls, as parameters\<close>

text \<open>
  The class \<^verbatim>\<open>CMIP6AnalysisTool\<close> is imported from \<^verbatim>\<open>src.climate_analysis_tool\<close>,
  which is not among the source files. Its constructor and its two methods are therefore
  parameters of the model: the constructor returns a tool or raises; a method leaves the
  tool object in some state and returns normally (\<open>None\<close>) or raises.

  The builtin \<^verbatim>\<open>print\<close> writes to the kernel's output stream and can raise as well:
  \<open>print_raises out s\<close> is what the call \<^verbatim>\<open>print(s)\<close> raises, if anything, when the
  completed \<^verbatim>\<open>print\<close> calls so far have written \<open>out\<close>.
\<close>

record 'tool collaborators =
  CMIP6AnalysisTool :: "py_exception + 'tool"
  start :: "'tool \<Rightarrow> py_exception option \<times> 'tool"
  cleanup :: "'tool \<Rightarrow> py_exception option \<times> 'tool"
  print_raises :: "string list \<Rightarrow> string \<Rightarrow> py_exception option"

subsection \<open>The notebook's namespace and output\<close>

datatype call = Call_CMIP6AnalysisTool | Call_start | Call_cleanup

text \<open>
  At the top level of a notebook \<^verbatim>\<open>locals()\<close> is the kernel's namespace: the name
  \<^verbatim>\<open>tool\<close> is bound there once the assignment of line 51 has completed, in this run
  of the cell or in an earlier one. \<open>stdout\<close> holds the argument of every \<^verbatim>\<open>print\<close>
  call that has returned, in order; \<open>calls\<close> the calls made into the tool class, in
  order.
\<close>

record 'tool namespace =
  tool :: "'tool option"
  stdout :: "string list"
  calls :: "call list"

text \<open>A statement ends normally (\<open>None\<close>) or with a raised exception, in a new namespace.\<close>

type_synonym 'tool outcome = "py_exception option \<times> 'tool namespace"

definition print :: "'tool collaborators \<Rightarrow> string \<Rightarrow> 'tool namespace \<Rightarrow> 'tool outcome" where
  "print env s ns =
    (case print_raises env (stdout ns) s of
       None \<Rightarrow> (None, ns\<lparr>stdout := stdout ns @ [s]\<rparr>)
     | Some e \<Rightarrow> (Some e, ns))"

text \<open>Consecutive \<^verbatim>\<open>print\<close> statements: the first that raises ends the sequence.\<close>

fun prints :: "'tool collaborators \<Rightarrow> string list \<Rightarrow> 'tool namespace \<Rightarrow> 'tool outcome" where
  "prints env [] ns = (None, ns)"
| "prints env (s # ss) ns =
    (case print env s ns of
       (None, ns') \<Rightarrow> prints env ss ns'
     | (Some e, ns') \<Rightarrow> (Some e, ns'))"

text \<open>
  Whether each of a list of consecutive \<^verbatim>\<open>print\<close> calls returns normally, when the
  completed calls so far have written \<open>out\<close>.
\<close>

fun prints_return :: "'tool collaborators \<Rightarrow> string list \<Rightarrow> string list \<Rightarrow> bool" where
  "prints_return env out [] = True"
| "prints_return env out (s # ss) =
    (print_raises env out s = None \<and> prints_return env (out @ [s]) ss)"

definition called :: "call \<Rightarrow> 'tool namespace \<Rightarrow> 'tool namespace" where
  "called c ns = ns\<lparr>calls := calls ns @ [c]\<rparr>"

text \<open>The check mark U+2713 that opens the success message, as its three UTF-8 bytes.\<close>

definition check_mark :: string where
  "check_mark = [CHR 0xE2, CHR 0x9C, CHR 0x93]"

subsection \<open>Lines 49 to 69: create and start the tool\<close>

definition starting_banner :: "string list" where
  "starting_banner =
    [CHR 0x0A # ''Starting CMIP6 Analysis Tool...'',
     ''Follow the interactive widgets that will appear below.'',
     CHR 0x0A # ''Workflow:'',
     ''1. Define your area of interest'',
     ''2. Select analysis time periods'',
     ''3. Choose climate indices'',
     ''4. Explore results with different models'']"

definition initializing_report :: "string \<Rightarrow> string list" where
  "initializing_report msg =
    [''Error initializing tool: '' @ msg,
     CHR 0x0A # ''Please check:'',
     ''- Earth Engine authentication'',
     ''- Required dependencies'',
     ''- Internet connection'']"

text \<open>
  The clause and handler of lines 64 to 69, entered with the exception \<open>e\<close> that left
  the \<^verbatim>\<open>try\<close> block. An instance of \<^verbatim>\<open>Exception\<close> is caught; line 65 then
  evaluates \<^verbatim>\<open>str(e)\<close> before anything is printed, and what \<^verbatim>\<open>str\<close> or one of the
  five \<^verbatim>\<open>print\<close> calls raises leaves the handler. Any other exception is not caught.
\<close>

definition except_initializing ::
    "'tool collaborators \<Rightarrow> py_exception \<Rightarrow> 'tool namespace \<Rightarrow> 'tool outcome" where
  "except_initializing env e ns =
    (case e of
       Exception (Str msg) \<Rightarrow> prints env (initializing_report msg) ns
     | Exception (Str_raises e') \<Rightarrow> (Some e', ns)
     | SystemExiting c \<Rightarrow> (Some e, ns))"

text \<open>
  Lines 49 to 69. Whatever leaves the \<^verbatim>\<open>try\<close> block, from the constructor, from one
  of the seven \<^verbatim>\<open>print\<close> calls or from \<^verbatim>\<open>start\<close>, meets the clause of line 64.
\<close>

definition create_and_start :: "'tool collaborators \<Rightarrow> 'tool namespace \<Rightarrow> 'tool outcome" where
  "create_and_start env ns =
    (case CMIP6AnalysisTool env of
       Inl e \<Rightarrow> except_initializing env e (called Call_CMIP6AnalysisTool ns)
     | Inr t \<Rightarrow>
         (case prints env starting_banner ((called Call_CMIP6AnalysisTool ns)\<lparr>tool := Some t\<rparr>) of
            (Some e, ns1) \<Rightarrow> except_initializing env e ns1
          | (None, ns1) \<Rightarrow>
              (case start env t of
                 (None, t') \<Rightarrow> (None, (called Call_start ns1)\<lparr>tool := Some t'\<rparr>)
               | (Some e, t') \<Rightarrow>
                   except_initializing env e ((called Call_start ns1)\<lparr>tool := Some t'\<rparr>))))"

subsection \<open>Lines 71 to 78: clean up\<close>

text \<open>
  The clause and handler of lines 77 and 78: as above, with one \<^verbatim>\<open>print\<close> call.
\<close>

definition except_cleanup ::
    "'tool collaborators \<Rightarrow> py_exception \<Rightarrow> 'tool namespace \<Rightarrow> 'tool outcome" where
  "except_cleanup env e ns =
    (case e of
       Exception (Str msg) \<Rightarrow> print env (''Error during cleanup: '' @ msg) ns
     | Exception (Str_raises e') \<Rightarrow> (Some e', ns)
     | SystemExiting c \<Rightarrow> (Some e, ns))"

text \<open>
  Lines 73 to 78. The \<^verbatim>\<open>try\<close> block holds the call of \<^verbatim>\<open>cleanup\<close> and the
  \<^verbatim>\<open>print\<close> of the success message; what leaves it from either meets the clause of
  line 77.
\<close>

definition cleanup_resources :: "'tool collaborators \<Rightarrow> 'tool namespace \<Rightarrow> 'tool outcome" where
  "cleanup_resources env ns =
    (case tool ns of
       None \<Rightarrow> (None, ns)
     | Some t \<Rightarrow>
         (case cleanup env t of
            (Some e, t') \<Rightarrow> except_cleanup env e ((called Call_cleanup ns)\<lparr>tool := Some t'\<rparr>)
          | (None, t') \<Rightarrow>
              (case print env (check_mark @ '' Resources cleaned up successfully'')
                      ((called Call_cleanup ns)\<lparr>tool := Some t'\<rparr>) of
                 (None, ns1) \<Rightarrow> (None, ns1)
               | (Some e, ns1) \<Rightarrow> except_cleanup env e ns1)))"

text \<open>
  The two parts in sequence. An exception that leaves the first part ends the cell, so the
  second part does not run.
\<close>

definition workflow :: "'tool collaborators \<Rightarrow> 'tool namespace \<Rightarrow> 'tool outcome" where
  "workflow env ns =
    (case create_and_start env ns of
       (Some e, ns') \<Rightarrow> (Some e, ns')
     | (None, ns') \<Rightarrow> cleanup_resources env ns')"

section \<open>Period Registry: conversion between calendars\<close>

text \<open>
  The repository lists \<^verbatim>\<open>time_period_handler.py\<close> among its components, but the file is
  not among the source files. The definitions of this section are written from the
  specification's Period data model (section 3) and Period Registry contract (section 4.2).
\<close>

text \<open>
  Modelled from the spec: the calendar kinds of \<^verbatim>\<open>time_period_handler.py\<close>, which is
  missing: "a calendar kind (standard Gregorian, 360-day, no-leap, etc.)"; the glossary
  names these three.
\<close>

datatype calendar = Standard | Day360 | NoLeap

text \<open>
  Modelled from the spec: the calendar dates that bound a Period, of the missing
  \<^verbatim>\<open>time_period_handler.py\<close>: a year, a month number from 1 to 12 and a day of the
  month.
\<close>

record date =
  year :: int
  month :: nat
  day :: nat

text \<open>
  Modelled from the spec: the Period of the missing \<^verbatim>\<open>time_period_handler.py\<close>: "a named
  time interval with start/end calendar dates and a calendar kind".
\<close>

record period =
  period_name :: string
  start_date :: date
  end_date :: date
  calendar_kind :: calendar

text \<open>
  Modelled from the spec: the order of dates behind the invariant "start \<open>\<le>\<close> end" of the
  missing \<^verbatim>\<open>time_period_handler.py\<close>: by year, then month, then day.
\<close>

definition date_le :: "date \<Rightarrow> date \<Rightarrow> bool" where
  "date_le a b \<longleftrightarrow>
     year a < year b \<or>
     (year a = year b \<and> (month a < month b \<or> (month a = month b \<and> day a \<le> day b)))"

text \<open>
  Modelled from the spec: the day-counting conventions of the missing
  \<^verbatim>\<open>time_period_handler.py\<close>. The Gregorian leap-year rule of the standard calendar.
\<close>

definition leap_year :: "int \<Rightarrow> bool" where
  "leap_year y \<longleftrightarrow> y mod 4 = 0 \<and> (y mod 100 \<noteq> 0 \<or> y mod 400 = 0)"

text \<open>
  Modelled from the spec: the last valid day of a month under each day-counting convention
  of the missing \<^verbatim>\<open>time_period_handler.py\<close>: thirty days in every month of the 360-day
  calendar ("360-day models truncate or remap day-of-month beyond 30"), the Gregorian
  month lengths in the standard calendar, and the same with a February of 28 days in
  every year of the no-leap calendar.
\<close>

definition days_in_month :: "calendar \<Rightarrow> int \<Rightarrow> nat \<Rightarrow> nat" where
  "days_in_month c y m =
    (case c of
       Day360 \<Rightarrow> 30
     | _ \<Rightarrow>
         (if m = 2 then (if c = Standard \<and> leap_year y then 29 else 28)
          else if m = 4 \<or> m = 6 \<or> m = 9 \<or> m = 11 then 30
          else 31))"

text \<open>
  Modelled from the spec: the rounding rule of \<^verbatim>\<open>convert\<close> in the missing
  \<^verbatim>\<open>time_period_handler.py\<close>, applied to one boundary: "round down to nearest valid day
  in target calendar". Year and month stay; a day past the month's last valid day becomes
  that last day.
\<close>

definition convert_date :: "calendar \<Rightarrow> date \<Rightarrow> date" where
  "convert_date c d = d\<lparr>day := min (day d) (days_in_month c (year d) (month d))\<rparr>"

text \<open>
  Modelled from the spec: \<^verbatim>\<open>convert(period, target_calendar) -> Period\<close> of the missing
  \<^verbatim>\<open>time_period_handler.py\<close>: it "re-expresses period boundaries under a different
  day-counting convention", "producing a new Period, not mutating the original".
\<close>

definition convert :: "period \<Rightarrow> calendar \<Rightarrow> period" where
  "convert p c =
    p\<lparr>start_date := convert_date c (start_date p),
      end_date := convert_date c (end_date p),
      calendar_kind := c\<rparr>"

section \<open>Properties of the workflow cell\<close>

subsection \<open>Printing\<close>

lemma print_returns:
  "print_raises env (stdout ns) s = None \<Longrightarrow>
     print env s ns = (None, ns\<lparr>stdout := stdout ns @ [s]\<rparr>)"
  by (simp add: print_def)

lemma print_raising:
  "print_raises env (stdout ns) s = Some e \<Longrightarrow> print env s ns = (Some e, ns)"
  by (simp add: print_def)

lemma prints_returns:
  "prints_return env (stdout ns) ss \<Longrightarrow>
     prints env ss ns = (None, ns\<lparr>stdout := stdout ns @ ss\<rparr>)"
proof (induction ss arbitrary: ns)
  case Nil
  then show ?case by simp
next
  case (Cons s ss)
  from Cons.prems have s: "print_raises env (stdout ns) s = None"
    and ss: "prints_return env (stdout (ns\<lparr>stdout := stdout ns @ [s]\<rparr>)) ss"
    by simp_all
  from Cons.IH [OF ss] s show ?case
    by (simp add: print_returns)
qed

text \<open>Printing touches neither the binding of \<^verbatim>\<open>tool\<close> nor the calls made.\<close>

lemma print_frame:
  "tool (snd (print env s ns)) = tool ns \<and> calls (snd (print env s ns)) = calls ns"
  by (simp add: print_def split: option.split)

lemma prints_frame:
  "tool (snd (prints env ss ns)) = tool ns \<and> calls (snd (prints env ss ns)) = calls ns"
proof (induction ss arbitrary: ns)
  case Nil
  then show ?case by simp
next
  case (Cons s ss)
  obtain r ns' where p: "print env s ns = (r, ns')"
    by (cases "print env s ns")
  with print_frame [of env s ns] have f: "tool ns' = tool ns" "calls ns' = calls ns"
    by simp_all
  show ?case
  proof (cases r)
    case None
    with p f Cons.IH [of ns'] show ?thesis by simp
  next
    case (Some e)
    with p f show ?thesis by simp
  qed
qed

subsection \<open>The two handlers\<close>

lemma except_initializing_reports:
  "prints_return env (stdout ns) (initializing_report msg) \<Longrightarrow>
     except_initializing env (Exception (Str msg)) ns =
       (None, ns\<lparr>stdout := stdout ns @ initializing_report msg\<rparr>)"
  by (simp add: except_initializing_def prints_returns)

lemma except_cleanup_reports:
  "print_raises env (stdout ns) (''Error during cleanup: '' @ msg) = None \<Longrightarrow>
     except_cleanup env (Exception (Str msg)) ns =
       (None, ns\<lparr>stdout := stdout ns @ [''Error during cleanup: '' @ msg]\<rparr>)"
  by (simp add: except_cleanup_def print_returns)

text \<open>What \<^verbatim>\<open>str(e)\<close> raises inside a handler leaves it, and nothing is printed.\<close>

lemma except_initializing_str_raises:
  "except_initializing env (Exception (Str_raises e')) ns = (Some e', ns)"
  by (simp add: except_initializing_def)

lemma except_cleanup_str_raises:
  "except_cleanup env (Exception (Str_raises e')) ns = (Some e', ns)"
  by (simp add: except_cleanup_def)

text \<open>Neither clause catches an exception that is not an instance of \<^verbatim>\<open>Exception\<close>.\<close>

lemma except_initializing_SystemExiting:
  "except_initializing env (SystemExiting c) ns = (Some (SystemExiting c), ns)"
  by (simp add: except_initializing_def)

lemma except_cleanup_SystemExiting:
  "except_cleanup env (SystemExiting c) ns = (Some (SystemExiting c), ns)"
  by (simp add: except_cleanup_def)

subsection \<open>Exceptions that leave the workflow\<close>

lemma constructor_SystemExiting_propagates:
  assumes "CMIP6AnalysisTool env = Inl (SystemExiting c)"
  shows "workflow env ns = (Some (SystemExiting c), called Call_CMIP6AnalysisTool ns)"
  using assms
  by (simp add: workflow_def create_and_start_def except_initializing_SystemExiting)

lemma start_SystemExiting_propagates:
  assumes "CMIP6AnalysisTool env = Inr t"
    and "prints_return env (stdout ns) starting_banner"
    and "start env t = (Some (SystemExiting c), t')"
  shows "workflow env ns =
           (Some (SystemExiting c),
            \<lparr>tool = Some t', stdout = stdout ns @ starting_banner,
              calls = calls ns @ [Call_CMIP6AnalysisTool, Call_start]\<rparr>)"
proof -
  let ?ns0 = "(called Call_CMIP6AnalysisTool ns)\<lparr>tool := Some t\<rparr>"
  from assms(2) have "prints_return env (stdout ?ns0) starting_banner"
    by (simp add: called_def)
  then have "prints env starting_banner ?ns0 = (None, ?ns0\<lparr>stdout := stdout ?ns0 @ starting_banner\<rparr>)"
    by (rule prints_returns)
  with assms(1,3) show ?thesis
    by (simp add: workflow_def create_and_start_def except_initializing_SystemExiting
          called_def)
qed

lemma cleanup_SystemExiting_propagates:
  assumes "tool ns = Some t" and "cleanup env t = (Some (SystemExiting c), t')"
  shows "cleanup_resources env ns =
           (Some (SystemExiting c),
            \<lparr>tool = Some t', stdout = stdout ns, calls = calls ns @ [Call_cleanup]\<rparr>)"
  using assms
  by (simp add: cleanup_resources_def except_cleanup_SystemExiting called_def)

lemma cleanup_str_raises_propagates:
  assumes "tool ns = Some t"
    and "cleanup env t = (Some (Exception (Str_raises e')), t')"
  shows "cleanup_resources env ns =
           (Some e', \<lparr>tool = Some t', stdout = stdout ns, calls = calls ns @ [Call_cleanup]\<rparr>)"
  using assms
  by (simp add: cleanup_resources_def except_cleanup_str_raises called_def)

text \<open>What a \<^verbatim>\<open>print\<close> call raises inside a handler leaves it as well.\<close>

lemma except_cleanup_print_raises:
  "print_raises env (stdout ns) (''Error during cleanup: '' @ msg) = Some e' \<Longrightarrow>
     except_cleanup env (Exception (Str msg)) ns = (Some e', ns)"
  by (simp add: except_cleanup_def print_raising)

text \<open>
  The success message of line 76 is printed inside the \<^verbatim>\<open>try\<close> block: when
  \<^verbatim>\<open>cleanup\<close> and that \<^verbatim>\<open>print\<close> return, the step ends normally; what that
  \<^verbatim>\<open>print\<close> raises meets the clause of line 77.
\<close>

lemma cleanup_returns:
  assumes "tool ns = Some t" and "cleanup env t = (None, t')"
    and "print_raises env (stdout ns) (check_mark @ '' Resources cleaned up successfully'') = None"
  shows "cleanup_resources env ns =
           (None, \<lparr>tool = Some t',
                   stdout = stdout ns @ [check_mark @ '' Resources cleaned up successfully''],
                   calls = calls ns @ [Call_cleanup]\<rparr>)"
  using assms
  by (simp add: cleanup_resources_def print_def called_def)

lemma cleanup_success_print_raises:
  assumes "tool ns = Some t" and "cleanup env t = (None, t')"
    and "print_raises env (stdout ns) (check_mark @ '' Resources cleaned up successfully'') = Some e"
  shows "cleanup_resources env ns =
           except_cleanup env e ((called Call_cleanup ns)\<lparr>tool := Some t'\<rparr>)"
  using assms
  by (simp add: cleanup_resources_def print_def called_def)

subsection \<open>Claim C10\<close>

text \<open>
  C10 as stated fails, in three ways.
  \<^item> An exception raised by \<^verbatim>\<open>tool.cleanup()\<close> that is not an instance of
    \<^verbatim>\<open>Exception\<close> is not caught by \<^verbatim>\<open>except Exception\<close>. With a tool whose
    \<^verbatim>\<open>cleanup\<close> raises \<^verbatim>\<open>KeyboardInterrupt\<close>, the cell runs the constructor,
    \<^verbatim>\<open>start\<close> and \<^verbatim>\<open>cleanup\<close>, prints the starting banner and nothing about the
    failure, and the exception leaves the workflow.
  \<^item> A caught exception is reported only if \<^verbatim>\<open>str(e)\<close> returns. With a tool whose
    \<^verbatim>\<open>start\<close> raises an \<^verbatim>\<open>Exception\<close> whose \<^verbatim>\<open>__str__\<close> raises a
    \<^verbatim>\<open>TypeError\<close>, line 65 raises inside the handler: nothing is reported, the
    \<^verbatim>\<open>TypeError\<close> leaves the workflow, and the cleanup step never runs.
  \<^item> A caught exception is reported only if the handler's \<^verbatim>\<open>print\<close> returns. With a
    tool whose \<^verbatim>\<open>cleanup\<close> raises an \<^verbatim>\<open>Exception\<close> and an output stream that
    refuses the message of line 78, what \<^verbatim>\<open>print\<close> raises leaves the workflow.
\<close>

theorem cleanup_KeyboardInterrupt_propagates:
  "workflow
     \<lparr>CMIP6AnalysisTool = Inr (0::nat),
      start = (\<lambda>t. (None, t)),
      cleanup = (\<lambda>t. (Some (SystemExiting ''KeyboardInterrupt''), t)),
      print_raises = (\<lambda>out s. None)\<rparr>
     \<lparr>tool = None, stdout = [], calls = []\<rparr>
   = (Some (SystemExiting ''KeyboardInterrupt''),
      \<lparr>tool = Some 0, stdout = starting_banner,
        calls = [Call_CMIP6AnalysisTool, Call_start, Call_cleanup]\<rparr>) \<and>
   workflow
     \<lparr>CMIP6AnalysisTool = Inr (0::nat),
      start = (\<lambda>t. (Some (Exception (Str_raises (Exception
                 (Str ''TypeError: __str__ returned non-string'')))), t)),
      cleanup = (\<lambda>t. (None, t)),
      print_raises = (\<lambda>out s. None)\<rparr>
     \<lparr>tool = None, stdout = [], calls = []\<rparr>
   = (Some (Exception (Str ''TypeError: __str__ returned non-string'')),
      \<lparr>tool = Some 0, stdout = starting_banner,
        calls = [Call_CMIP6AnalysisTool, Call_start]\<rparr>) \<and>
   workflow
     \<lparr>CMIP6AnalysisTool = Inr (0::nat),
      start = (\<lambda>t. (None, t)),
      cleanup = (\<lambda>t. (Some (Exception (Str ''session lost'')), t)),
      print_raises = (\<lambda>out s.
         if s = ''Error during cleanup: session lost''
         then Some (Exception (Str ''ValueError: I/O operation on closed file''))
         else None)\<rparr>
     \<lparr>tool = None, stdout = [], calls = []\<rparr>
   = (Some (Exception (Str ''ValueError: I/O operation on closed file'')),
      \<lparr>tool = Some 0, stdout = starting_banner,
        calls = [Call_CMIP6AnalysisTool, Call_start, Call_cleanup]\<rparr>)"
  by (simp add: workflow_def create_and_start_def cleanup_resources_def called_def
        except_cleanup_def except_initializing_def print_def starting_banner_def)

text \<open>
  C10, amended to the instances of \<^verbatim>\<open>Exception\<close> and to handlers whose
  \<^verbatim>\<open>str(e)\<close> and \<^verbatim>\<open>print\<close> calls return normally. In the workflow of main.ipynb:
  \<^item> when the name \<^verbatim>\<open>tool\<close> is not bound, the cleanup step does nothing: it calls
    nothing, prints nothing and raises nothing;
  \<^item> when \<^verbatim>\<open>tool.cleanup()\<close> raises an instance of \<^verbatim>\<open>Exception\<close> on which
    \<^verbatim>\<open>str\<close> returns, and the handler's \<^verbatim>\<open>print\<close> returns, the step ends normally
    and has printed "Error during cleanup: " followed by that string;
  \<^item> so, when the first part has ended normally, that exception does not leave the
    workflow either;
  \<^item> when the constructor raises an instance of \<^verbatim>\<open>Exception\<close> on which \<^verbatim>\<open>str\<close>
    returns, and the handler's five \<^verbatim>\<open>print\<close> calls return, the first part ends
    normally, has printed "Error initializing tool: " followed by that string and the
    four lines of advice, and has bound no tool;
  \<^item> when \<^verbatim>\<open>tool.start()\<close> is reached and raises such an exception, the first part
    ends normally and has printed the same report after the starting banner.
\<close>

theorem workflow_reports_Exception:
  "(tool ns = None \<longrightarrow> cleanup_resources env ns = (None, ns)) \<and>
   (\<forall>t t' msg.
      tool ns = Some t \<and> cleanup env t = (Some (Exception (Str msg)), t') \<and>
      print_raises env (stdout ns) (''Error during cleanup: '' @ msg) = None \<longrightarrow>
      cleanup_resources env ns =
        (None, \<lparr>tool = Some t', stdout = stdout ns @ [''Error during cleanup: '' @ msg],
                calls = calls ns @ [Call_cleanup]\<rparr>)) \<and>
   (\<forall>ns' t t' msg.
      create_and_start env ns = (None, ns') \<and>
      tool ns' = Some t \<and> cleanup env t = (Some (Exception (Str msg)), t') \<and>
      print_raises env (stdout ns') (''Error during cleanup: '' @ msg) = None \<longrightarrow>
      workflow env ns =
        (None, \<lparr>tool = Some t', stdout = stdout ns' @ [''Error during cleanup: '' @ msg],
                calls = calls ns' @ [Call_cleanup]\<rparr>)) \<and>
   (\<forall>msg.
      CMIP6AnalysisTool env = Inl (Exception (Str msg)) \<and>
      prints_return env (stdout ns) (initializing_report msg) \<longrightarrow>
      create_and_start env ns =
        (None, \<lparr>tool = tool ns, stdout = stdout ns @ initializing_report msg,
                calls = calls ns @ [Call_CMIP6AnalysisTool]\<rparr>)) \<and>
   (\<forall>t t' msg.
      CMIP6AnalysisTool env = Inr t \<and>
      prints_return env (stdout ns) starting_banner \<and>
      start env t = (Some (Exception (Str msg)), t') \<and>
      prints_return env (stdout ns @ starting_banner) (initializing_report msg) \<longrightarrow>
      create_and_start env ns =
        (None, \<lparr>tool = Some t',
                stdout = stdout ns @ starting_banner @ initializing_report msg,
                calls = calls ns @ [Call_CMIP6AnalysisTool, Call_start]\<rparr>))"
proof (intro conjI allI impI)
  assume "tool ns = None"
  then show "cleanup_resources env ns = (None, ns)"
    by (simp add: cleanup_resources_def)
next
  fix t t' msg
  assume "tool ns = Some t \<and> cleanup env t = (Some (Exception (Str msg)), t') \<and>
    print_raises env (stdout ns) (''Error during cleanup: '' @ msg) = None"
  then show "cleanup_resources env ns =
        (None, \<lparr>tool = Some t', stdout = stdout ns @ [''Error during cleanup: '' @ msg],
                calls = calls ns @ [Call_cleanup]\<rparr>)"
    by (simp add: cleanup_resources_def except_cleanup_reports called_def)
next
  fix ns' t t' msg
  assume "create_and_start env ns = (None, ns') \<and>
    tool ns' = Some t \<and> cleanup env t = (Some (Exception (Str msg)), t') \<and>
    print_raises env (stdout ns') (''Error during cleanup: '' @ msg) = None"
  then show "workflow env ns =
        (None, \<lparr>tool = Some t', stdout = stdout ns' @ [''Error during cleanup: '' @ msg],
                calls = calls ns' @ [Call_cleanup]\<rparr>)"
    by (simp add: workflow_def cleanup_resources_def except_cleanup_reports called_def)
next
  fix msg
  assume "CMIP6AnalysisTool env = Inl (Exception (Str msg)) \<and>
    prints_return env (stdout ns) (initializing_report msg)"
  then show "create_and_start env ns =
        (None, \<lparr>tool = tool ns, stdout = stdout ns @ initializing_report msg,
                calls = calls ns @ [Call_CMIP6AnalysisTool]\<rparr>)"
    by (simp add: create_and_start_def except_initializing_reports called_def)
next
  fix t t' msg
  assume a: "CMIP6AnalysisTool env = Inr t \<and>
    prints_return env (stdout ns) starting_banner \<and>
    start env t = (Some (Exception (Str msg)), t') \<and>
    prints_return env (stdout ns @ starting_banner) (initializing_report msg)"
  let ?ns0 = "(called Call_CMIP6AnalysisTool ns)\<lparr>tool := Some t\<rparr>"
  let ?ns1 = "?ns0\<lparr>stdout := stdout ?ns0 @ starting_banner\<rparr>"
  let ?ns2 = "(called Call_start ?ns1)\<lparr>tool := Some t'\<rparr>"
  from a have "prints_return env (stdout ?ns0) starting_banner"
    by (simp add: called_def)
  then have banner: "prints env starting_banner ?ns0 = (None, ?ns1)"
    by (rule prints_returns)
  from a have "prints_return env (stdout ?ns2) (initializing_report msg)"
    by (simp add: called_def)
  then have "except_initializing env (Exception (Str msg)) ?ns2 =
      (None, ?ns2\<lparr>stdout := stdout ?ns2 @ initializing_report msg\<rparr>)"
    by (rule except_initializing_reports)
  with a banner show "create_and_start env ns =
        (None, \<lparr>tool = Some t',
                stdout = stdout ns @ starting_banner @ initializing_report msg,
                calls = calls ns @ [Call_CMIP6AnalysisTool, Call_start]\<rparr>)"
    by (simp add: create_and_start_def called_def)
qed

text \<open>
  The theorem at three concrete runs in which every \<^verbatim>\<open>print\<close> returns: a tool whose
  \<^verbatim>\<open>start\<close> and \<^verbatim>\<open>cleanup\<close> both raise an \<^verbatim>\<open>Exception\<close>, run from a fresh
  namespace and from one where \<^verbatim>\<open>tool\<close> is bound, and a constructor that raises an
  \<^verbatim>\<open>Exception\<close>.
\<close>

theorem workflow_reports_Exception_witness:
  "cleanup_resources
     \<lparr>CMIP6AnalysisTool = Inr (0::nat),
      start = (\<lambda>t. (Some (Exception (Str ''no widgets'')), t + 1)),
      cleanup = (\<lambda>t. (Some (Exception (Str ''session lost'')), t + 1)),
      print_raises = (\<lambda>out s. None)\<rparr>
     \<lparr>tool = None, stdout = [], calls = []\<rparr>
   = (None, \<lparr>tool = None, stdout = [], calls = []\<rparr>) \<and>
   cleanup_resources
     \<lparr>CMIP6AnalysisTool = Inr (0::nat),
      start = (\<lambda>t. (Some (Exception (Str ''no widgets'')), t + 1)),
      cleanup = (\<lambda>t. (Some (Exception (Str ''session lost'')), t + 1)),
      print_raises = (\<lambda>out s. None)\<rparr>
     \<lparr>tool = Some 1, stdout = [], calls = []\<rparr>
   = (None, \<lparr>tool = Some 2, stdout = [''Error during cleanup: session lost''],
             calls = [Call_cleanup]\<rparr>) \<and>
   create_and_start
     \<lparr>CMIP6AnalysisTool = Inl (Exception (Str ''no module'')),
      start = (\<lambda>t::nat. (None, t)),
      cleanup = (\<lambda>t. (None, t)),
      print_raises = (\<lambda>out s. None)\<rparr>
     \<lparr>tool = None, stdout = [], calls = []\<rparr>
   = (None, \<lparr>tool = None, stdout = initializing_report ''no module'',
             calls = [Call_CMIP6AnalysisTool]\<rparr>) \<and>
   create_and_start
     \<lparr>CMIP6AnalysisTool = Inr (0::nat),
      start = (\<lambda>t. (Some (Exception (Str ''no widgets'')), t + 1)),
      cleanup = (\<lambda>t. (Some (Exception (Str ''session lost'')), t + 1)),
      print_raises = (\<lambda>out s. None)\<rparr>
     \<lparr>tool = None, stdout = [], calls = []\<rparr>
   = (None, \<lparr>tool = Some 1,
             stdout = starting_banner @ initializing_report ''no widgets'',
             calls = [Call_CMIP6AnalysisTool, Call_start]\<rparr>) \<and>
   workflow
     \<lparr>CMIP6AnalysisTool = Inr (0::nat),
      start = (\<lambda>t. (Some (Exception (Str ''no widgets'')), t + 1)),
      cleanup = (\<lambda>t. (Some (Exception (Str ''session lost'')), t + 1)),
      print_raises = (\<lambda>out s. None)\<rparr>
     \<lparr>tool = None, stdout = [], calls = []\<rparr>
   = (None, \<lparr>tool = Some 2,
             stdout = (starting_banner @ initializing_report ''no widgets'') @
                      [''Error during cleanup: session lost''],
             calls = [Call_CMIP6AnalysisTool, Call_start] @ [Call_cleanup]\<rparr>)"
proof -
  let ?env = "\<lparr>CMIP6AnalysisTool = Inr (0::nat),
      start = (\<lambda>t. (Some (Exception (Str ''no widgets'')), t + 1)),
      cleanup = (\<lambda>t. (Some (Exception (Str ''session lost'')), t + 1)),
      print_raises = (\<lambda>out s. None)\<rparr>"
  let ?env' = "\<lparr>CMIP6AnalysisTool = Inl (Exception (Str ''no module'')),
      start = (\<lambda>t::nat. (None, t)),
      cleanup = (\<lambda>t. (None, t)),
      print_raises = (\<lambda>out s. None)\<rparr>"
  have p: "prints_return ?env out ss" "prints_return ?env' out ss" for out ss
    by (induction ss arbitrary: out) simp_all
  note fresh = workflow_reports_Exception [of "\<lparr>tool = None, stdout = [], calls = []\<rparr>" ?env]
  note bound = workflow_reports_Exception [of "\<lparr>tool = Some 1, stdout = [], calls = []\<rparr>" ?env]
  note ctor = workflow_reports_Exception [of "\<lparr>tool = None, stdout = [], calls = []\<rparr>" ?env']
  from fresh have 1: "cleanup_resources ?env \<lparr>tool = None, stdout = [], calls = []\<rparr>
      = (None, \<lparr>tool = None, stdout = [], calls = []\<rparr>)"
    by simp
  from bound have 2: "cleanup_resources ?env \<lparr>tool = Some 1, stdout = [], calls = []\<rparr>
      = (None, \<lparr>tool = Some 2, stdout = [''Error during cleanup: session lost''],
                calls = [Call_cleanup]\<rparr>)"
    by simp
  from ctor p have 3: "create_and_start ?env' \<lparr>tool = None, stdout = [], calls = []\<rparr>
      = (None, \<lparr>tool = None, stdout = initializing_report ''no module'',
                calls = [Call_CMIP6AnalysisTool]\<rparr>)"
    by simp
  from fresh p have 4: "create_and_start ?env \<lparr>tool = None, stdout = [], calls = []\<rparr>
      = (None, \<lparr>tool = Some 1,
                stdout = starting_banner @ initializing_report ''no widgets'',
                calls = [Call_CMIP6AnalysisTool, Call_start]\<rparr>)"
    by simp
  from fresh 4 have 5: "workflow ?env \<lparr>tool = None, stdout = [], calls = []\<rparr>
      = (None, \<lparr>tool = Some 2,
             stdout = (starting_banner @ initializing_report ''no widgets'') @
                      [''Error during cleanup: session lost''],
             calls = [Call_CMIP6AnalysisTool, Call_start] @ [Call_cleanup]\<rparr>)"
    by simp
  from 1 2 3 4 5 show ?thesis
    by (intro conjI)
qed

section \<open>Properties of the calendar conversion\<close>

lemma convert_date_mono: "date_le a b \<Longrightarrow> date_le (convert_date c a) (convert_date c b)"
  unfolding date_le_def convert_date_def
  by (auto simp: min_def)

lemma convert_date_idem: "convert_date c (convert_date c d) = convert_date c d"
  by (simp add: convert_date_def)

text \<open>
  The rounding rule yields a valid day of the target calendar, and the nearest one below:
  no valid day of the month lies between the result and the original day.
\<close>

lemma convert_date_valid:
  "1 \<le> day d \<Longrightarrow>
     1 \<le> day (convert_date c d) \<and>
     day (convert_date c d) \<le> days_in_month c (year d) (month d)"
  by (simp add: convert_date_def days_in_month_def split: calendar.split)

lemma convert_date_nearest:
  "k \<le> day d \<Longrightarrow> k \<le> days_in_month c (year d) (month d) \<Longrightarrow>
     k \<le> day (convert_date c d)"
  by (simp add: convert_date_def)

subsection \<open>Claim C3\<close>

text \<open>
  C3: for every period whose start is not after its end and every calendar \<open>c\<close> of the
  three kinds, the converted period is a period of calendar \<open>c\<close> whose start is not after
  its end, and converting it to \<open>c\<close> once more changes nothing.
\<close>

theorem convert_ordered_idempotent:
  "date_le (start_date p) (end_date p) \<Longrightarrow>
     date_le (start_date (convert p c)) (end_date (convert p c)) \<and>
     calendar_kind (convert p c) = c \<and>
     convert (convert p c) c = convert p c"
proof (intro conjI)
  assume "date_le (start_date p) (end_date p)"
  then have "date_le (convert_date c (start_date p)) (convert_date c (end_date p))"
    by (rule convert_date_mono)
  then show "date_le (start_date (convert p c)) (end_date (convert p c))"
    by (simp add: convert_def)
next
  show "calendar_kind (convert p c) = c"
    by (simp add: convert_def)
next
  show "convert (convert p c) c = convert p c"
    by (simp add: convert_def convert_date_idem)
qed

text \<open>
  The theorem at the baseline period 1995-01-31 to 2014-12-31 of the standard calendar,
  converted to the 360-day calendar: both boundaries move to day 30.
\<close>

theorem convert_ordered_idempotent_witness:
  "date_le \<lparr>year = 1995, month = 1, day = 31\<rparr> \<lparr>year = 2014, month = 12, day = 31\<rparr> \<and>
   convert
     \<lparr>period_name = ''baseline'',
      start_date = \<lparr>year = 1995, month = 1, day = 31\<rparr>,
      end_date = \<lparr>year = 2014, month = 12, day = 31\<rparr>,
      calendar_kind = Standard\<rparr> Day360 =
     \<lparr>period_name = ''baseline'',
      start_date = \<lparr>year = 1995, month = 1, day = 30\<rparr>,
      end_date = \<lparr>year = 2014, month = 12, day = 30\<rparr>,
      calendar_kind = Day360\<rparr> \<and>
   date_le \<lparr>year = 1995, month = 1, day = 30\<rparr> \<lparr>year = 2014, month = 12, day = 30\<rparr> \<and>
   convert
     \<lparr>period_name = ''baseline'',
      start_date = \<lparr>year = 1995, month = 1, day = 30\<rparr>,
      end_date = \<lparr>year = 2014, month = 12, day = 30\<rparr>,
      calendar_kind = Day360\<rparr> Day360 =
     \<lparr>period_name = ''baseline'',
      start_date = \<lparr>year = 1995, month = 1, day = 30\<rparr>,
      end_date = \<lparr>year = 2014, month = 12, day = 30\<rparr>,
      calendar_kind = Day360\<rparr>"
proof -
  have h: "date_le \<lparr>year = 1995, month = 1, day = 31\<rparr> \<lparr>year = 2014, month = 12, day = 31\<rparr>"
    by (simp add: date_le_def)
  have c: "convert
     \<lparr>period_name = ''baseline'',
      start_date = \<lparr>year = 1995, month = 1, day = 31\<rparr>,
      end_date = \<lparr>year = 2014, month = 12, day = 31\<rparr>,
      calendar_kind = Standard\<rparr> Day360 =
     \<lparr>period_name = ''baseline'',
      start_date = \<lparr>year = 1995, month = 1, day = 30\<rparr>,
      end_date = \<lparr>year = 2014, month = 12, day = 30\<rparr>,
      calendar_kind = Day360\<rparr>"
    by (simp add: convert_def convert_date_def days_in_month_def)
  from h have "date_le
     (start_date \<lparr>period_name = ''baseline'',
        start_date = \<lparr>year = 1995, month = 1, day = 31\<rparr>,
        end_date = \<lparr>year = 2014, month = 12, day = 31\<rparr>,
        calendar_kind = Standard\<rparr>)
     (end_date \<lparr>period_name = ''baseline'',
        start_date = \<lparr>year = 1995, month = 1, day = 31\<rparr>,
        end_date = \<lparr>year = 2014, month = 12, day = 31\<rparr>,
        calendar_kind = Standard\<rparr>)"
    by simp
  from convert_ordered_idempotent [OF this, of Day360] h c show ?thesis
    by simp
qed

end
